theory Spec2Isabelle
  imports Complex_Main "HOL-Library.Sublist" "HOL-Library.Word"
begin

section \<open>JavaScript values, as far as the program uses them\<close>

text \<open>
  Response bodies are JSON documents read with \<^verbatim>\<open>response.json()\<close>. A parsed document is
  a \<open>jsval\<close>; \<open>JUndefined\<close> is the result of reading a property that is not there
  (it never occurs inside a parsed document). An object keeps its members in document
  order. Numbers are the integer-valued ones below \<open>10 ^ 21\<close> in magnitude, which
  JavaScript prints in plain digits; the strings of a document are lists of code units
  in the range 0..255 (the text given to the concept parser is any sequence of UTF-16
  code units, see there).
\<close>

datatype jsval =
    JUndefined
  | JNull
  | JBool bool
  | JNum int
  | JStr string
  | JArr "jsval list"
  | JObj "(string \<times> jsval) list"

text \<open>A thrown \<^verbatim>\<open>Error\<close> object; the program only ever reads its \<^verbatim>\<open>message\<close>.\<close>

datatype js_error = Error (message: string)

text \<open>Truthiness, as tested by \<^verbatim>\<open>!x\<close>, \<^verbatim>\<open>x || y\<close> and \<^verbatim>\<open>x && y\<close>.\<close>

fun truthy :: "jsval \<Rightarrow> bool" where
  "truthy JUndefined = False"
| "truthy JNull = False"
| "truthy (JBool b) = b"
| "truthy (JNum n) = (n \<noteq> 0)"
| "truthy (JStr s) = (s \<noteq> [])"
| "truthy (JArr xs) = True"
| "truthy (JObj kvs) = True"

text \<open>
  \<open>member v k\<close> is the value of \<^verbatim>\<open>v.k\<close> for a \<open>v\<close> that is neither \<^verbatim>\<open>null\<close> nor
  \<^verbatim>\<open>undefined\<close>, for the property names this program reads (\<^verbatim>\<open>error\<close>, \<^verbatim>\<open>message\<close>,
  \<^verbatim>\<open>candidates\<close>, \<^verbatim>\<open>content\<close>, \<^verbatim>\<open>parts\<close>, \<^verbatim>\<open>text\<close>, \<^verbatim>\<open>predictions\<close>,
  \<^verbatim>\<open>bytesBase64Encoded\<close>, \<^verbatim>\<open>prompt\<close>): none of them is inherited by an object, an
  array or a primitive, so only an object's own members answer. \<^verbatim>\<open>JSON.parse\<close> keeps the
  last of several members with one name.
\<close>

fun member :: "jsval \<Rightarrow> string \<Rightarrow> jsval" where
  "member (JObj kvs) k = (case map_of (rev kvs) k of None \<Rightarrow> JUndefined | Some v \<Rightarrow> v)"
| "member v k = JUndefined"

text \<open>\<^verbatim>\<open>v.k\<close>: reading a property of \<^verbatim>\<open>null\<close> or \<^verbatim>\<open>undefined\<close> throws a TypeError.\<close>

definition get_prop :: "jsval \<Rightarrow> string \<Rightarrow> js_error + jsval" where
  "get_prop v k =
     (if v = JNull then Inl (Error (''Cannot read properties of null (reading '' @ [CHR 0x27] @ k @ [CHR 0x27] @ '')''))
      else if v = JUndefined then Inl (Error (''Cannot read properties of undefined (reading '' @ [CHR 0x27] @ k @ [CHR 0x27] @ '')''))
      else Inr (member v k))"

text \<open>\<^verbatim>\<open>v?.k\<close>: \<^verbatim>\<open>undefined\<close> when \<open>v\<close> is \<^verbatim>\<open>null\<close> or \<^verbatim>\<open>undefined\<close>.\<close>

definition opt_prop :: "jsval \<Rightarrow> string \<Rightarrow> jsval" where
  "opt_prop v k = (if v = JNull \<or> v = JUndefined then JUndefined else member v k)"

text \<open>
  \<open>first v\<close> is \<^verbatim>\<open>v[0]\<close> for a \<open>v\<close> that is neither \<^verbatim>\<open>null\<close> nor \<^verbatim>\<open>undefined\<close>: the first
  element of an array, the first character of a string, the member \<^verbatim>\<open>"0"\<close> of an object.
\<close>

fun first :: "jsval \<Rightarrow> jsval" where
  "first (JArr xs) = (case xs of [] \<Rightarrow> JUndefined | x # _ \<Rightarrow> x)"
| "first (JStr s) = (case s of [] \<Rightarrow> JUndefined | c # _ \<Rightarrow> JStr [c])"
| "first (JObj kvs) = member (JObj kvs) ''0''"
| "first v = JUndefined"

definition opt_first :: "jsval \<Rightarrow> jsval" where
  "opt_first v = (if v = JNull \<or> v = JUndefined then JUndefined else first v)"

text \<open>Decimal digits of a natural number, as a template literal prints a status code.\<close>

fun show_nat :: "nat \<Rightarrow> string" where
  "show_nat n = (if n < 10 then [''0123456789'' ! n] else show_nat (n div 10) @ [''0123456789'' ! (n mod 10)])"

declare show_nat.simps [simp del]

definition show_int :: "int \<Rightarrow> string" where
  "show_int i = (if i < 0 then CHR ''-'' # show_nat (nat (- i)) else show_nat (nat i))"

text \<open>
  \<open>intercalate\<close> is \<^verbatim>\<open>Array.prototype.join\<close> on strings already converted.
\<close>

fun intercalate :: "string \<Rightarrow> string list \<Rightarrow> string" where
  "intercalate sep [] = []"
| "intercalate sep [x] = x"
| "intercalate sep (x # y # ys) = x @ sep @ intercalate sep (y # ys)"

text \<open>The first error of a list of results, or all the values (evaluation left to right).\<close>

fun collect :: "('e + 'a) list \<Rightarrow> 'e + 'a list" where
  "collect [] = Inr []"
| "collect (Inl e # rs) = Inl e"
| "collect (Inr x # rs) = (case collect rs of Inl e \<Rightarrow> Inl e | Inr xs \<Rightarrow> Inr (x # xs))"

text \<open>
  \<^verbatim>\<open>String(v)\<close>, the conversion that \<^verbatim>\<open>new Error(v)\<close> and a template literal apply. An
  array joins its converted elements with commas, \<^verbatim>\<open>null\<close> and \<^verbatim>\<open>undefined\<close> elements
  counting as empty strings, so the empty array converts to the empty string. A parsed
  object converts to \<^verbatim>\<open>[object Object]\<close>, unless it has a member named \<^verbatim>\<open>toString\<close>:
  that member hides the inherited method and is not callable, and the conversion throws.
\<close>

fun to_string :: "jsval \<Rightarrow> js_error + string" where
  "to_string JUndefined = Inr ''undefined''"
| "to_string JNull = Inr ''null''"
| "to_string (JBool b) = Inr (if b then ''true'' else ''false'')"
| "to_string (JNum n) = Inr (show_int n)"
| "to_string (JStr s) = Inr s"
| "to_string (JArr xs) =
     (case collect (map (\<lambda>x. if x = JNull \<or> x = JUndefined then Inr [] else to_string x) xs) of
        Inl e \<Rightarrow> Inl e
      | Inr ss \<Rightarrow> Inr (intercalate '','' ss))"
| "to_string (JObj kvs) =
     (if ''toString'' \<in> fst ` set kvs then Inl (Error ''Cannot convert object to primitive value'')
      else Inr ''[object Object]'')"

section \<open>The retrying request wrapper\<close>

text \<open>
  A response as \<^verbatim>\<open>fetch\<close> resolves it: the status code, and what \<^verbatim>\<open>response.json()\<close>
  gives for the body, the parsed document or the error it rejects with.
  \<^verbatim>\<open>response.ok\<close> is true exactly for the statuses 200 to 299.
\<close>

record response =
  status :: nat
  body :: "js_error + jsval"

definition ok :: "response \<Rightarrow> bool" where
  "ok r = (200 \<le> status r \<and> status r \<le> 299)"

text \<open>One call of \<^verbatim>\<open>fetch\<close> either rejects (a network failure) or resolves with a response.\<close>

datatype outcome = Rejected js_error | Resolved response

text \<open>What an invocation does, in order: the \<open>i\<close>-th call of \<^verbatim>\<open>fetch\<close>, and timers awaited.\<close>

datatype event = Fetch nat | Sleep nat

text \<open>
  The error thrown for a response that is neither ok nor 429:
  \<^verbatim>\<open>const errData = await response.json();
  throw new Error(errData.error?.message || `HTTP error! status: ${response.status}`);\<close>
  Reading the body may itself reject, and \<^verbatim>\<open>errData.error\<close> throws when the body is
  \<^verbatim>\<open>null\<close>, as converting the message to a string may.
\<close>

definition http_error :: "response \<Rightarrow> js_error" where
  "http_error r =
     (case body r of
        Inl e \<Rightarrow> e
      | Inr errData \<Rightarrow>
          (case get_prop errData ''error'' of
             Inl e \<Rightarrow> e
           | Inr er \<Rightarrow>
               (let m = opt_prop er ''message''
                in if truthy m then (case to_string m of Inl e \<Rightarrow> e | Inr msg \<Rightarrow> Error msg)
                   else Error (''HTTP error! status: '' @ show_nat (status r)))))"

text \<open>
  The loop of \<^verbatim>\<open>fetchWithBackoff\<close>, from iteration \<open>i\<close> with the current \<open>delay\<close>.
  \<open>fetch i\<close> is the outcome of the \<open>i\<close>-th call \<^verbatim>\<open>fetch(url, options)\<close> of the invocation
  (the request is the same every time). The result is the trace of events and the
  value the returned promise settles with: \<open>Inr\<close> the parsed body, \<open>Inl\<close> the error.

  \<^item> an ok response: \<^verbatim>\<open>return response.json()\<close>; the promise is returned without
    \<^verbatim>\<open>await\<close>, so a rejection of it is not caught by the \<^verbatim>\<open>try\<close>;
  \<^item> status 429: wait \<open>delay\<close>, double it, next iteration;
  \<^item> any other response: \<open>http_error\<close> is thrown inside the \<^verbatim>\<open>try\<close>;
  \<^item> \<^verbatim>\<open>catch (e)\<close>, reached by a rejected \<^verbatim>\<open>fetch\<close> and by that throw: rethrow on
    the last iteration, otherwise wait \<open>delay\<close>, double it, next iteration;
  \<^item> after the loop: the generic error.

  \<^verbatim>\<open>maxRetries\<close> is a count and \<^verbatim>\<open>delay\<close> a number of milliseconds. The values
  \<open>1000 * 2 ^ i\<close> that \<^verbatim>\<open>delay\<close> takes are integers that JavaScript's numbers hold exactly
  for every \<open>i\<close> up to 1014; they are natural numbers here.
\<close>

function attempts :: "(nat \<Rightarrow> outcome) \<Rightarrow> nat \<Rightarrow> nat \<Rightarrow> nat \<Rightarrow> event list \<times> (js_error + jsval)" where
  "attempts fetch maxRetries i delay =
     (if i < maxRetries then
        (case fetch i of
           Resolved r \<Rightarrow>
             if ok r then ([Fetch i], body r)
             else if status r = 429 then
               (let rest = attempts fetch maxRetries (i + 1) (delay * 2)
                in (Fetch i # Sleep delay # fst rest, snd rest))
             else if i = maxRetries - 1 then ([Fetch i], Inl (http_error r))
             else
               (let rest = attempts fetch maxRetries (i + 1) (delay * 2)
                in (Fetch i # Sleep delay # fst rest, snd rest))
         | Rejected e \<Rightarrow>
             if i = maxRetries - 1 then ([Fetch i], Inl e)
             else
               (let rest = attempts fetch maxRetries (i + 1) (delay * 2)
                in (Fetch i # Sleep delay # fst rest, snd rest)))
      else ([], Inl (Error ''Request failed after multiple retries.'')))"
  by pat_completeness auto
termination
  by (relation "measure (\<lambda>(fetch, maxRetries, i, delay). maxRetries - i)") auto

declare attempts.simps [simp del]

text \<open>\<^verbatim>\<open>let delay = 1000\<close> and \<^verbatim>\<open>i = 0\<close>; \<^verbatim>\<open>maxRetries\<close> defaults to 5.\<close>

definition fetchWithBackoff :: "(nat \<Rightarrow> outcome) \<Rightarrow> nat \<Rightarrow> event list \<times> (js_error + jsval)" where
  "fetchWithBackoff fetch maxRetries = attempts fetch maxRetries 0 1000"

definition defaultMaxRetries :: nat where
  "defaultMaxRetries = 5"

text \<open>An attempt fails when \<^verbatim>\<open>fetch\<close> rejects or the response is not ok.\<close>

definition failed :: "outcome \<Rightarrow> bool" where
  "failed out = (case out of Rejected e \<Rightarrow> True | Resolved r \<Rightarrow> \<not> ok r)"

text \<open>
  The full schedule of an invocation that makes \<open>n\<close> attempts and waits after each:
  attempt 0, wait 1000 ms, attempt 1, wait 2000 ms, and so on.
\<close>

definition schedule :: "nat \<Rightarrow> event list" where
  "schedule n = concat (map (\<lambda>j. [Fetch j, Sleep (1000 * 2 ^ j)]) [0..<n])"

text \<open>
  What an attempt throws into the \<^verbatim>\<open>catch\<close> of its iteration, if anything: the
  rejection of \<^verbatim>\<open>fetch\<close>, or the error built for a response that is neither ok nor 429.
\<close>

definition thrown :: "outcome \<Rightarrow> js_error option" where
  "thrown out =
     (case out of
        Rejected e \<Rightarrow> Some e
      | Resolved r \<Rightarrow> if ok r \<or> status r = 429 then None else Some (http_error r))"

text \<open>\<^verbatim>\<open>errData.error?.message\<close>, where it can be read.\<close>

definition message_member :: "jsval \<Rightarrow> jsval" where
  "message_member errData =
     (case get_prop errData ''error'' of Inl e \<Rightarrow> JUndefined | Inr er \<Rightarrow> opt_prop er ''message'')"

text \<open>
  An outcome whose error, if it is reported, has a message that is not empty: the
  rejections of \<^verbatim>\<open>fetch\<close> and \<^verbatim>\<open>response.json()\<close> carry a message, and the \<^verbatim>\<open>message\<close>
  of the error body is not an array (an array may convert to the empty string).
\<close>

definition well_reported :: "outcome \<Rightarrow> bool" where
  "well_reported out =
     (case out of
        Rejected e \<Rightarrow> message e \<noteq> []
      | Resolved r \<Rightarrow>
          (case body r of
             Inl e \<Rightarrow> message e \<noteq> []
           | Inr errData \<Rightarrow> (case message_member errData of JArr xs \<Rightarrow> False | _ \<Rightarrow> True)))"

text \<open>The error thrown after the loop.\<close>

definition generic_error :: js_error where
  "generic_error = Error ''Request failed after multiple retries.''"

section \<open>The concept-list parser\<close>

text \<open>
  The text the parser works on is a JavaScript string: a sequence of UTF-16 code units.
  \<open>units s\<close> gives the code units of a string whose characters are all below 256.
\<close>

type_synonym utf16 = "16 word list"

definition units :: "string \<Rightarrow> utf16" where
  "units s = map of_char s"

text \<open>
  The character classes of the pattern \<^verbatim>\<open>/\d+\.\s+/\<close> (no \<^verbatim>\<open>u\<close> flag, so it matches code
  unit by code unit): \<^verbatim>\<open>\d\<close> is an ASCII digit; \<^verbatim>\<open>\s\<close> is white space or a line
  terminator, that is tab, line feed, vertical tab, form feed, carriage return, space,
  no-break space, U+1680, U+2000 to U+200A, U+2028, U+2029, U+202F, U+205F, U+3000 and
  U+FEFF. \<^verbatim>\<open>String.prototype.trim\<close> removes the same characters.
\<close>

definition is_digit :: "16 word \<Rightarrow> bool" where
  "is_digit c = (c \<in> set [0x30, 0x31, 0x32, 0x33, 0x34, 0x35, 0x36, 0x37, 0x38, 0x39])"

definition is_space :: "16 word \<Rightarrow> bool" where
  "is_space c =
     (c \<in> set [0x0009, 0x000A, 0x000B, 0x000C, 0x000D, 0x0020, 0x00A0, 0x1680,
                0x2000, 0x2001, 0x2002, 0x2003, 0x2004, 0x2005, 0x2006, 0x2007, 0x2008, 0x2009, 0x200A,
                0x2028, 0x2029, 0x202F, 0x205F, 0x3000, 0xFEFF])"

text \<open>
  \<open>match_marker s\<close> matches \<^verbatim>\<open>/\d+\.\s+/\<close> at the start of \<open>s\<close> and returns what follows
  the match. Both repetitions are greedy, and giving back a digit or a space never
  helps: the character after a shorter run of digits is a digit, not the period
  (code unit \<open>0x2E\<close>).
\<close>

definition match_marker :: "utf16 \<Rightarrow> utf16 option" where
  "match_marker s =
     (if takeWhile is_digit s = [] then None
      else (case dropWhile is_digit s of
              [] \<Rightarrow> None
            | c # r \<Rightarrow>
                if c = 0x2E \<and> takeWhile is_space r \<noteq> [] then Some (dropWhile is_space r)
                else None))"

text \<open>
  \<^verbatim>\<open>text.split(/\d+\.\s+/)\<close>: scan from the left; where the pattern matches, close the
  current fragment and go on after the match; at the end, close the last fragment.
  \<open>acc\<close> is the fragment read so far. A match is never empty.
\<close>

function split_from :: "utf16 \<Rightarrow> utf16 \<Rightarrow> utf16 list" where
  "split_from acc [] = [acc]"
| "split_from acc (c # cs) =
     (case match_marker (c # cs) of
        Some rest \<Rightarrow> acc # split_from [] rest
      | None \<Rightarrow> split_from (acc @ [c]) cs)"
  by pat_completeness auto
termination
proof (relation "measure (\<lambda>(acc, s). length s)")
  fix acc :: utf16 and c :: "16 word" and cs rest :: utf16
  assume m: "match_marker (c # cs) = Some rest"
  then obtain d r where d: "dropWhile is_digit (c # cs) = d # r" and rest: "rest = dropWhile is_space r"
    by (auto simp: match_marker_def split: if_splits list.splits)
  have "length rest \<le> length r"
    unfolding rest by (rule length_dropWhile_le)
  moreover have "length (d # r) \<le> length (c # cs)"
    unfolding d [symmetric] by (rule length_dropWhile_le)
  ultimately show "((([]::utf16), rest), (acc, c # cs)) \<in> measure (\<lambda>(acc, s). length s)"
    by simp
qed auto

definition split_marker :: "utf16 \<Rightarrow> utf16 list" where
  "split_marker s = split_from [] s"

text \<open>
  The list marker in the words of the specification, for comparison with the scan above:
  one or more digits, a period, one or more white-space characters, and nothing else
  (lemma \<open>is_marker_iff\<close> below says so with the three parts named).
\<close>

definition is_marker :: "utf16 \<Rightarrow> bool" where
  "is_marker m =
     (takeWhile is_digit m \<noteq> [] \<and>
      (case dropWhile is_digit m of
         [] \<Rightarrow> False
       | c # ws \<Rightarrow> c = 0x2E \<and> ws \<noteq> [] \<and> list_all is_space ws))"


definition trim :: "utf16 \<Rightarrow> utf16" where
  "trim s = rev (dropWhile is_space (rev (dropWhile is_space s)))"

text \<open>
  A concept, \<^verbatim>\<open>{ id, text, imageUrl }\<close>, its fields named \<open>concept_id\<close>, \<open>concept_text\<close>
  and \<open>imageUrl\<close> here; \<^verbatim>\<open>imageUrl: null\<close> is \<open>None\<close>. An id is a time in milliseconds
  plus a small index, an integer that JavaScript's numbers hold exactly.
\<close>

record concept =
  concept_id :: int
  concept_text :: utf16
  imageUrl :: "string option"

text \<open>
  \<^verbatim>\<open>.filter(c => c.trim().length > 0).map((conceptText, index) => ({ id: Date.now() + index,
  text: conceptText.trim(), imageUrl: null }))\<close>. \<^verbatim>\<open>Date.now()\<close> is read once for every
  element: \<open>clock index\<close> is the reading taken for the element at \<open>index\<close>.
\<close>

definition parsedConcepts :: "(nat \<Rightarrow> int) \<Rightarrow> utf16 \<Rightarrow> concept list" where
  "parsedConcepts clock txt =
     map (\<lambda>(index, conceptText).
            \<lparr>concept_id = clock index + int index, concept_text = trim conceptText, imageUrl = None\<rparr>)
         (enumerate 0 (filter (\<lambda>c. length (trim c) > 0) (split_marker txt)))"

section \<open>The session and its two actions\<close>

text \<open>The state of the component, one field for every \<^verbatim>\<open>useState\<close>.\<close>

record session =
  apiKey :: string
  brief :: string
  creativity :: rat
  concepts :: "concept list"
  isLoadingIdeas :: bool
  loadingImageId :: "int option"
  error :: "string option"

text \<open>
  What an action reads from outside: the outcomes of its calls of \<^verbatim>\<open>fetch\<close>, the
  readings of \<^verbatim>\<open>Date.now()\<close>, and the runtime's comparison \<^verbatim>\<open>Number(s) > 0\<close> of a string
  with zero (used only where a response gives \<^verbatim>\<open>predictions\<close> a \<^verbatim>\<open>length\<close> that is not a
  number).
\<close>

record world =
  network :: "nat \<Rightarrow> outcome"
  clock :: "nat \<Rightarrow> int"
  string_positive :: "string \<Rightarrow> bool"

text \<open>\<^verbatim>\<open>result?.candidates?.[0]?.content?.parts?.[0]?.text\<close>\<close>

definition candidate_text :: "jsval \<Rightarrow> jsval" where
  "candidate_text result =
     opt_prop (opt_first (opt_prop (opt_prop (opt_first (opt_prop result ''candidates'')) ''content'') ''parts'')) ''text''"

text \<open>
  The \<^verbatim>\<open>try\<close> block of \<^verbatim>\<open>generateIdeas\<close> after the request: the concepts to store, or the
  error its \<^verbatim>\<open>catch\<close> receives. A truthy \<^verbatim>\<open>text\<close> that is not a string has no \<^verbatim>\<open>split\<close>;
  a string is handed to the parser as its code units.
\<close>

definition ideas_try :: "world \<Rightarrow> js_error + jsval \<Rightarrow> js_error + concept list" where
  "ideas_try w res =
     (case res of
        Inl e \<Rightarrow> Inl e
      | Inr result \<Rightarrow>
          (let txt = candidate_text result
           in if \<not> truthy txt then Inl (Error ''Invalid response structure from API.'')
              else (case txt of
                      JStr s \<Rightarrow> Inr (parsedConcepts (clock w) (units s))
                    | _ \<Rightarrow> Inl (Error ''text.split is not a function''))))"

definition generateIdeas :: "world \<Rightarrow> session \<Rightarrow> event list \<times> session" where
  "generateIdeas w s =
     (if brief s = [] then ([], s\<lparr>error := Some ''Please enter a creative brief.''\<rparr>)
      else
        (let s1 = s\<lparr>isLoadingIdeas := True, error := None, concepts := []\<rparr>;
             call = fetchWithBackoff (network w) defaultMaxRetries;
             s2 = (case ideas_try w (snd call) of
                     Inr parsed \<Rightarrow> s1\<lparr>concepts := parsed\<rparr>
                   | Inl err \<Rightarrow> s1\<lparr>error := Some (''Failed to generate ideas. '' @ message err)\<rparr>)
         in (fst call, s2\<lparr>isLoadingIdeas := False\<rparr>)))"

text \<open>
  \<^verbatim>\<open>x > 0\<close> for a value \<open>x\<close>: \<^verbatim>\<open>undefined\<close> compares as NaN, \<^verbatim>\<open>null\<close> as 0, \<^verbatim>\<open>true\<close> as 1;
  an array or an object is converted to a string first, and a string is compared as the
  number it denotes.
\<close>

fun positive :: "world \<Rightarrow> jsval \<Rightarrow> js_error + bool" where
  "positive w JUndefined = Inr False"
| "positive w JNull = Inr False"
| "positive w (JBool b) = Inr b"
| "positive w (JNum n) = Inr (0 < n)"
| "positive w (JStr s) = Inr (string_positive w s)"
| "positive w v = (case to_string v of Inl e \<Rightarrow> Inl e | Inr s \<Rightarrow> Inr (string_positive w s))"

text \<open>\<^verbatim>\<open>v.length\<close> for a truthy \<open>v\<close>.\<close>

fun length_of :: "jsval \<Rightarrow> jsval" where
  "length_of (JArr xs) = JNum (int (length xs))"
| "length_of (JStr s) = JNum (int (length s))"
| "length_of v = member v ''length''"

text \<open>
  The value of \<^verbatim>\<open>result.predictions && result.predictions.length > 0 &&
  result.predictions[0].bytesBase64Encoded\<close>, or the TypeError its evaluation throws.
\<close>

definition image_data :: "world \<Rightarrow> jsval \<Rightarrow> js_error + jsval" where
  "image_data w result =
     (case get_prop result ''predictions'' of
        Inl e \<Rightarrow> Inl e
      | Inr predictions \<Rightarrow>
          if \<not> truthy predictions then Inr predictions
          else (case positive w (length_of predictions) of
                  Inl e \<Rightarrow> Inl e
                | Inr False \<Rightarrow> Inr (JBool False)
                | Inr True \<Rightarrow> get_prop (first predictions) ''bytesBase64Encoded''))"

text \<open>
  The \<^verbatim>\<open>try\<close> block of \<^verbatim>\<open>visualizeConcept\<close> after the request: the data URI to store, or
  the error its \<^verbatim>\<open>catch\<close> receives.
\<close>

definition image_try :: "world \<Rightarrow> js_error + jsval \<Rightarrow> js_error + string" where
  "image_try w res =
     (case res of
        Inl e \<Rightarrow> Inl e
      | Inr result \<Rightarrow>
          (case image_data w result of
             Inl e \<Rightarrow> Inl e
           | Inr b \<Rightarrow>
               if truthy b then
                 (case to_string b of Inl e \<Rightarrow> Inl e | Inr enc \<Rightarrow> Inr (''data:image/png;base64,'' @ enc))
               else Inl (Error ''No image data received from API.'')))"

definition visualizeConcept :: "world \<Rightarrow> int \<Rightarrow> utf16 \<Rightarrow> session \<Rightarrow> event list \<times> session" where
  "visualizeConcept w conceptId conceptText s =
     (let s1 = s\<lparr>loadingImageId := Some conceptId, error := None\<rparr>;
          call = fetchWithBackoff (network w) defaultMaxRetries;
          s2 = (case image_try w (snd call) of
                  Inr url \<Rightarrow>
                    s1\<lparr>concepts := map (\<lambda>c. if concept_id c = conceptId then c\<lparr>imageUrl := Some url\<rparr> else c)
                                       (concepts s1)\<rparr>
                | Inl err \<Rightarrow> s1\<lparr>error := Some (''Failed to generate image. '' @ message err)\<rparr>)
      in (fst call, s2\<lparr>loadingImageId := None\<rparr>))"

section \<open>The page: initial state, controls and reachable states\<close>

text \<open>The initial values of the \<^verbatim>\<open>useState\<close> calls (\<^verbatim>\<open>creativity\<close> starts at 0.7).\<close>

definition default_brief :: string where
  "default_brief =
     ''Client: '' @ [CHR 0x22] @ ''Aqua Pura'' @ [CHR 0x22] @
     '' - a new premium bottled water brand. Target Audience: Health-conscious millennials (25-40). '' @
     ''Core Challenge: Differentiate in a saturated market. Key Message: '' @ [CHR 0x22] @
     ''Experience purity in every drop.'' @ [CHR 0x22] @
     '' Mandatories: Must feature natural elements, convey a sense of calm and refreshment. '' @
     ''Budget: High-end campaign.''"

definition initial :: session where
  "initial = \<lparr>apiKey = [], brief = default_brief, creativity = 7 / 10, concepts = [],
               isLoadingIdeas = False, loadingImageId = None, error = None\<rparr>"

text \<open>
  What the user can do on the page: type into the key field or the brief, move the
  slider, press \<^verbatim>\<open>Generate Ideas\<close>, press \<^verbatim>\<open>Visualize\<close> on the card of a concept, dismiss
  the error. The \<^verbatim>\<open>Generate Ideas\<close> button is disabled while \<^verbatim>\<open>isLoadingIdeas || !apiKey\<close>,
  every \<^verbatim>\<open>Visualize\<close> button while \<^verbatim>\<open>loadingImageId !== null\<close>; a disabled button does
  nothing. An action runs to its end before the next event is handled.
\<close>

datatype ui_event =
    ChangeApiKey string
  | ChangeBrief string
  | ChangeCreativity rat
  | ClickGenerate
  | ClickVisualize concept
  | DismissError

fun handle :: "world \<Rightarrow> ui_event \<Rightarrow> session \<Rightarrow> session" where
  "handle w (ChangeApiKey k) s = s\<lparr>apiKey := k\<rparr>"
| "handle w (ChangeBrief b) s = s\<lparr>brief := b\<rparr>"
| "handle w (ChangeCreativity c) s = s\<lparr>creativity := c\<rparr>"
| "handle w ClickGenerate s =
     (if isLoadingIdeas s \<or> apiKey s = [] then s else snd (generateIdeas w s))"
| "handle w (ClickVisualize c) s =
     (if loadingImageId s \<noteq> None \<or> c \<notin> set (concepts s) then s
      else snd (visualizeConcept w (concept_id c) (concept_text c) s))"
| "handle w DismissError s = s\<lparr>error := None\<rparr>"

inductive reachable :: "session \<Rightarrow> bool" where
  start: "reachable initial"
| event: "reachable s \<Longrightarrow> reachable (handle w e s)"

section \<open>The image proxy\<close>

text \<open>
  The handler of \<^verbatim>\<open>POST /generate-image\<close>. \<open>token\<close> is what obtaining the access token
  gives (the token, or the error thrown), \<open>upstream\<close> the outcome of the call to the
  provider. The handler answers with a status code and a JSON document, and the effects
  it performed are listed in order.
\<close>

record provider =
  token :: "js_error + jsval"
  upstream :: outcome

datatype effect = Authenticate | CallUpstream

record reply =
  code :: nat
  payload :: jsval

text \<open>\<^verbatim>\<open>const { prompt } = req.body\<close> throws when the body is \<^verbatim>\<open>null\<close> or \<^verbatim>\<open>undefined\<close>.\<close>

definition destructure_prompt :: "jsval \<Rightarrow> js_error + jsval" where
  "destructure_prompt b =
     (if b = JNull then
        Inl (Error (''Cannot destructure property '' @ [CHR 0x27] @ ''prompt'' @ [CHR 0x27] @ '' of ''
                    @ [CHR 0x27] @ ''req.body'' @ [CHR 0x27] @ '' as it is null.''))
      else if b = JUndefined then
        Inl (Error (''Cannot destructure property '' @ [CHR 0x27] @ ''prompt'' @ [CHR 0x27] @ '' of ''
                    @ [CHR 0x27] @ ''req.body'' @ [CHR 0x27] @ '' as it is undefined.''))
      else Inr (member b ''prompt''))"

text \<open>\<^verbatim>\<open>res.status(500).json({ error: error.message })\<close>\<close>

definition failure :: "js_error \<Rightarrow> reply" where
  "failure e = \<lparr>code = 500, payload = JObj [(''error'', JStr (message e))]\<rparr>"

definition generate_image :: "provider \<Rightarrow> jsval \<Rightarrow> effect list \<times> reply" where
  "generate_image p req_body =
     (case destructure_prompt req_body of
        Inl e \<Rightarrow> ([], failure e)
      | Inr prompt \<Rightarrow>
          if \<not> truthy prompt then
            ([], \<lparr>code = 400, payload = JObj [(''error'', JStr ''Prompt is required.'')]\<rparr>)
          else
            (case token p of
               Inl e \<Rightarrow> ([Authenticate], failure e)
             | Inr accessToken \<Rightarrow>
                 (case upstream p of
                    Rejected e \<Rightarrow> ([Authenticate, CallUpstream], failure e)
                  | Resolved r \<Rightarrow>
                      if \<not> ok r then ([Authenticate, CallUpstream], failure (http_error r))
                      else (case body r of
                              Inl e \<Rightarrow> ([Authenticate, CallUpstream], failure e)
                            | Inr data \<Rightarrow> ([Authenticate, CallUpstream], \<lparr>code = 200, payload = data\<rparr>)))))"

section \<open>Concrete inputs\<close>

text \<open>Two rate-limited responses, then a 200 response with the JSON body \<^verbatim>\<open>"done"\<close>.\<close>

definition rate_limited_twice :: "nat \<Rightarrow> outcome" where
  "rate_limited_twice i =
     (if i < 2 then Resolved \<lparr>status = 429, body = Inr JNull\<rparr>
      else Resolved \<lparr>status = 200, body = Inr (JStr ''done'')\<rparr>)"

text \<open>Rate-limited once, then a 200 response with the JSON body \<^verbatim>\<open>"done"\<close>.\<close>

definition rate_limited_once :: "nat \<Rightarrow> outcome" where
  "rate_limited_once i =
     (if i < 1 then Resolved \<lparr>status = 429, body = Inr JNull\<rparr>
      else Resolved \<lparr>status = 200, body = Inr (JStr ''done'')\<rparr>)"

text \<open>
  A 500 response with the error body \<^verbatim>\<open>{"error":{"message":"boom"}}\<close>, then a 200
  response with the JSON body \<^verbatim>\<open>"done"\<close>.
\<close>

definition server_error_then_ok :: "nat \<Rightarrow> outcome" where
  "server_error_then_ok i =
     (if i < 1 then Resolved \<lparr>status = 500, body = Inr (JObj [(''error'', JObj [(''message'', JStr ''boom'')])])\<rparr>
      else Resolved \<lparr>status = 200, body = Inr (JStr ''done'')\<rparr>)"

text \<open>Every response is that 500 response.\<close>

definition always_server_error :: "nat \<Rightarrow> outcome" where
  "always_server_error i =
     Resolved \<lparr>status = 500, body = Inr (JObj [(''error'', JObj [(''message'', JStr ''boom'')])])\<rparr>"

text \<open>Every response is a 500 response with the error body \<^verbatim>\<open>{"error":{"message":[]}}\<close>.\<close>

definition always_empty_message :: "nat \<Rightarrow> outcome" where
  "always_empty_message i =
     Resolved \<lparr>status = 500, body = Inr (JObj [(''error'', JObj [(''message'', JArr [])])])\<rparr>"

text \<open>Every response has status 429.\<close>

definition always_rate_limited :: "nat \<Rightarrow> outcome" where
  "always_rate_limited i = Resolved \<lparr>status = 429, body = Inr JNull\<rparr>"


text \<open>A world whose requests are always answered 429, and one that answers with the image.\<close>

definition rate_limited_world :: world where
  "rate_limited_world = \<lparr>network = always_rate_limited, clock = (\<lambda>i. 0), string_positive = (\<lambda>s. False)\<rparr>"


text \<open>Two concepts on the page, with a brief; and the same page with the brief emptied.\<close>

definition alpha :: concept where
  "alpha = \<lparr>concept_id = 1, concept_text = units ''Alpha'', imageUrl = None\<rparr>"

definition beta :: concept where
  "beta = \<lparr>concept_id = 2, concept_text = units ''Beta'', imageUrl = None\<rparr>"

definition two_concepts :: session where
  "two_concepts = \<lparr>apiKey = ''key'', brief = ''A brief'', creativity = 7 / 10, concepts = [alpha, beta],
                    isLoadingIdeas = False, loadingImageId = None, error = None\<rparr>"

definition no_brief :: session where
  "no_brief = two_concepts\<lparr>brief := []\<rparr>"

text \<open>The text \<^verbatim>\<open>"1. Alpha\n2. Beta\n3. "\<close>, and a response of the text service that carries it.\<close>

definition numbered_list :: utf16 where
  "numbered_list = units ''1. Alpha'' @ [0x0A] @ units ''2. Beta'' @ [0x0A] @ units ''3. ''"

definition text_response :: jsval where
  "text_response =
     JObj [(''candidates'', JArr [JObj [(''content'', JObj [(''parts'', JArr [JObj [(''text'', JStr (''1. Alpha'' @ [CHR 0x0A] @ ''2. Beta'' @ [CHR 0x0A] @ ''3. ''))]])])]])]"


text \<open>
  The text \<^verbatim>\<open>"1.\u3000Alpha\u20282.\u00a0Beta"\<close>: an ideographic space, a line separator
  and a no-break space where the list above has spaces and a line feed.
\<close>

definition numbered_list_wide :: utf16 where
  "numbered_list_wide = units ''1.'' @ [0x3000] @ units ''Alpha'' @ [0x2028] @ units ''2.'' @ [0x00A0] @ units ''Beta''"


text \<open>A provider side that would answer, were it asked.\<close>

definition idle_provider :: provider where
  "idle_provider = \<lparr>token = Inr (JStr ''token''), upstream = Resolved \<lparr>status = 200, body = Inr JNull\<rparr>\<rparr>"

section \<open>Properties of the retrying request wrapper\<close>

lemma ok_not_429: "ok r \<Longrightarrow> status r \<noteq> 429"
  by (simp add: ok_def)

lemma attempts_failed_step:
  assumes "failed (f i)" and "Suc i < m"
  shows "attempts f m i d =
           (Fetch i # Sleep d # fst (attempts f m (Suc i) (d * 2)), snd (attempts f m (Suc i) (d * 2)))"
  using assms
  by (subst attempts.simps) (auto simp: failed_def Let_def split: outcome.splits)

lemma attempts_failed_run:
  assumes "\<forall>j<k. failed (f j)" and "k < m"
  shows "attempts f m 0 c =
           (concat (map (\<lambda>j. [Fetch j, Sleep (c * 2 ^ j)]) [0..<k]) @ fst (attempts f m k (c * 2 ^ k)),
            snd (attempts f m k (c * 2 ^ k)))"
  using assms
proof (induction k)
  case 0
  then show ?case by simp
next
  case (Suc k)
  have step: "attempts f m k (c * 2 ^ k) =
           (Fetch k # Sleep (c * 2 ^ k) # fst (attempts f m (Suc k) (c * 2 ^ k * 2)),
            snd (attempts f m (Suc k) (c * 2 ^ k * 2)))"
    using Suc.prems by (intro attempts_failed_step) auto
  have "attempts f m 0 c =
           (concat (map (\<lambda>j. [Fetch j, Sleep (c * 2 ^ j)]) [0..<k]) @ fst (attempts f m k (c * 2 ^ k)),
            snd (attempts f m k (c * 2 ^ k)))"
    using Suc by simp
  then show ?case
    by (simp add: step mult.commute mult.left_commute)
qed

lemma attempts_prefix:
  "prefix (fst (attempts f m i (c * 2 ^ i))) (concat (map (\<lambda>j. [Fetch j, Sleep (c * 2 ^ j)]) [i..<m]))"
proof (induction "m - i" arbitrary: i)
  case 0
  then show ?case by (subst attempts.simps) simp
next
  case (Suc n)
  then have lt: "i < m" and n: "n = m - Suc i" by auto
  have "c * 2 ^ i * 2 = c * 2 ^ Suc i" by simp
  then have ih: "prefix (fst (attempts f m (Suc i) (c * 2 ^ i * 2)))
              (concat (map (\<lambda>j. [Fetch j, Sleep (c * 2 ^ j)]) [Suc i..<m]))"
    using Suc.hyps(1) [OF n] by (simp only:)
  show ?case
    using lt ih
    by (subst attempts.simps) (auto simp: upt_conv_Cons Let_def split: outcome.splits)
qed

lemma schedule_Suc: "schedule (Suc n) = schedule n @ [Fetch n, Sleep (1000 * 2 ^ n)]"
  by (simp add: schedule_def)

lemma Fetch_in_schedule: "Fetch k \<in> set (schedule n) \<longleftrightarrow> k < n"
proof (induction n)
  case 0
  show ?case by (simp add: schedule_def)
next
  case (Suc n)
  then show ?case by (auto simp: schedule_Suc)
qed

lemma schedule_split:
  "k \<le> m \<Longrightarrow> schedule m = schedule k @ concat (map (\<lambda>j. [Fetch j, Sleep (1000 * 2 ^ j)]) [k..<m])"
proof -
  assume "k \<le> m"
  then have "[0..<m] = [0..<k] @ [k..<m]"
    using upt_add_eq_append [of 0 k "m - k"] by simp
  then show ?thesis
    by (simp add: schedule_def)
qed

lemma trace_prefix_schedule:
  "prefix (fst (fetchWithBackoff fetch maxRetries)) (schedule maxRetries)"
  unfolding fetchWithBackoff_def schedule_def
  using attempts_prefix [of fetch maxRetries 0 1000] by simp

lemma prefix_schedule_retry:
  assumes p: "prefix tr (schedule m)" and k: "1 \<le> k" and mem: "Fetch k \<in> set tr"
  shows "\<exists>pre post. tr = pre @ [Fetch (k - 1), Sleep (1000 * 2 ^ (k - 1)), Fetch k] @ post"
proof -
  have "Fetch k \<in> set (schedule m)"
    using p mem by (auto dest: set_mono_prefix)
  then have km: "k < m" by (simp add: Fetch_in_schedule)
  then have "schedule m = schedule k @ (Fetch k # Sleep (1000 * 2 ^ k) #
                 concat (map (\<lambda>j. [Fetch j, Sleep (1000 * 2 ^ j)]) [Suc k..<m]))"
    using schedule_split [of k m] by (simp add: upt_conv_Cons)
  then consider "prefix tr (schedule k)"
    | us where "tr = schedule k @ us" and "prefix us (Fetch k # Sleep (1000 * 2 ^ k) #
                 concat (map (\<lambda>j. [Fetch j, Sleep (1000 * 2 ^ j)]) [Suc k..<m]))"
    using p by (auto simp: prefix_append)
  then show ?thesis
  proof cases
    case 1
    then have "Fetch k \<in> set (schedule k)"
      using mem by (auto dest: set_mono_prefix)
    then show ?thesis by (simp add: Fetch_in_schedule)
  next
    case (2 us)
    have "us \<noteq> []"
      using 2(1) mem by (auto simp: Fetch_in_schedule)
    then obtain post where us: "us = Fetch k # post"
      using 2(2) by (cases us) auto
    obtain k' where k': "k = Suc k'"
      using k by (cases k) auto
    have "tr = schedule k' @ [Fetch k', Sleep (1000 * 2 ^ k'), Fetch k] @ post"
      using 2(1) us by (simp add: k' schedule_Suc)
    then show ?thesis
      by (auto simp: k')
  qed
qed

lemma show_nat_nonempty: "show_nat n \<noteq> []"
  by (subst show_nat.simps) simp

lemma show_int_nonempty: "show_int i \<noteq> []"
  by (simp add: show_int_def show_nat_nonempty)

lemma to_string_nonempty:
  assumes "truthy v" and "\<And>xs. v \<noteq> JArr xs" and "to_string v = Inr s"
  shows "s \<noteq> []"
  using assms by (cases v) (auto simp: show_int_nonempty split: if_splits)

lemma collect_Inl: "collect rs = Inl e \<Longrightarrow> Inl e \<in> set rs"
  by (induction rs rule: collect.induct) (auto split: sum.splits)

lemma to_string_error:
  "to_string v = Inl e \<Longrightarrow> e = Error ''Cannot convert object to primitive value''"
proof (induction v arbitrary: e rule: to_string.induct)
  case (6 xs)
  from "6.prems" have "collect (map (\<lambda>x. if x = JNull \<or> x = JUndefined then Inr [] else to_string x) xs) = Inl e"
    by (simp split: sum.splits)
  then have "Inl e \<in> set (map (\<lambda>x. if x = JNull \<or> x = JUndefined then Inr [] else to_string x) xs)"
    by (rule collect_Inl)
  then obtain x where "x \<in> set xs" and "\<not> (x = JNull \<or> x = JUndefined)" and "to_string x = Inl e"
    by (auto split: if_splits)
  then show ?case
    using "6.IH" by blast
qed (auto split: if_splits)

lemma attempts_done: "attempts f m m d = ([], Inl generic_error)"
  by (subst attempts.simps) (simp add: generic_error_def)

lemma attempts_last:
  assumes "failed (f i)" and "m = Suc i"
  shows "attempts f m i d =
           (if thrown (f i) = None then [Fetch i, Sleep d] else [Fetch i],
            Inl (case thrown (f i) of Some e \<Rightarrow> e | None \<Rightarrow> generic_error))"
  using assms
  by (subst attempts.simps)
     (auto simp: failed_def thrown_def attempts_done Let_def split: outcome.splits)

lemma fetchWithBackoff_exhausted:
  assumes "\<forall>i<m. failed (f i)"
  shows "snd (fetchWithBackoff f m) =
           Inl (if m = 0 then generic_error
                else case thrown (f (m - 1)) of Some e \<Rightarrow> e | None \<Rightarrow> generic_error)"
proof (cases m)
  case 0
  then show ?thesis by (simp add: fetchWithBackoff_def attempts_done)
next
  case (Suc k)
  have "\<forall>j<k. failed (f j)" and "k < m" and fk: "failed (f k)"
    using assms Suc by auto
  then have "snd (attempts f m 0 1000) = snd (attempts f m k (1000 * 2 ^ k))"
    using attempts_failed_run [of k f m 1000] by simp
  also have "\<dots> = Inl (case thrown (f k) of Some e \<Rightarrow> e | None \<Rightarrow> generic_error)"
    using fk Suc by (simp add: attempts_last)
  finally show ?thesis
    by (simp add: fetchWithBackoff_def Suc)
qed


lemma fetchWithBackoff_stops_at_ok:
  assumes "\<forall>j<k. failed (f j)" and "k < m" and "\<not> failed (f k)"
  shows "fetchWithBackoff f m = (schedule k @ [Fetch k], case f k of Resolved r \<Rightarrow> body r | Rejected e \<Rightarrow> Inl e)"
proof -
  have "attempts f m k (1000 * 2 ^ k) = ([Fetch k], case f k of Resolved r \<Rightarrow> body r | Rejected e \<Rightarrow> Inl e)"
    using assms(2,3) by (subst attempts.simps) (auto simp: failed_def split: outcome.splits)
  then show ?thesis
    using attempts_failed_run [OF assms(1,2), of 1000]
    by (simp add: fetchWithBackoff_def schedule_def)
qed

lemma attempt_reached:
  assumes "Fetch i \<in> set (fst (fetchWithBackoff f m))"
  shows "i < m" and "\<forall>j<i. failed (f j)"
proof -
  have "Fetch i \<in> set (schedule m)"
    using trace_prefix_schedule [of f m] assms by (auto dest: set_mono_prefix)
  then show im: "i < m" by (simp add: Fetch_in_schedule)
  show "\<forall>j<i. failed (f j)"
  proof (rule ccontr)
    assume "\<not> (\<forall>j<i. failed (f j))"
    then obtain j where j: "j < i" "\<not> failed (f j)" by blast
    define k where "k = (LEAST j. \<not> failed (f j))"
    have nk: "\<not> failed (f k)"
      unfolding k_def using j(2) by (rule LeastI)
    have kj: "k \<le> j"
      unfolding k_def using j(2) by (rule Least_le)
    have before: "\<forall>j<k. failed (f j)"
      unfolding k_def using not_less_Least by blast
    have "k < m" using kj j(1) im by simp
    then have "fst (fetchWithBackoff f m) = schedule k @ [Fetch k]"
      using fetchWithBackoff_stops_at_ok [OF before _ nk] by simp
    then have "i \<le> k"
      using assms by (auto simp: Fetch_in_schedule)
    then show False using kj j(1) by simp
  qed
qed

lemma http_error_message:
  assumes "body r = Inr errData" and "message_member errData = JStr msg" and "msg \<noteq> []"
  shows "http_error r = Error msg"
  using assms
  by (auto simp: http_error_def message_member_def Let_def split: sum.splits)

lemma http_error_nonempty:
  assumes "well_reported (Resolved r)"
  shows "message (http_error r) \<noteq> []"
proof (cases "body r")
  case (Inl e)
  then show ?thesis using assms by (simp add: http_error_def well_reported_def)
next
  case (Inr errData)
  show ?thesis
  proof (cases "get_prop errData ''error''")
    case (Inl e)
    then show ?thesis
      using Inr by (auto simp: http_error_def get_prop_def split: if_splits)
  next
    case er: (Inr er)
    let ?m = "opt_prop er ''message''"
    have na: "\<And>xs. ?m \<noteq> JArr xs"
      using assms Inr er by (auto simp: well_reported_def message_member_def split: jsval.splits)
    show ?thesis
    proof (cases "truthy ?m")
      case True
      show ?thesis
      proof (cases "to_string ?m")
        case (Inl e)
        then show ?thesis
          using Inr er True by (auto simp: http_error_def dest: to_string_error)
      next
        case s: (Inr s)
        then have "s \<noteq> []"
          using True na by (intro to_string_nonempty [of ?m]) auto
        then show ?thesis
          using Inr er True s by (simp add: http_error_def)
      qed
    next
      case False
      then show ?thesis
        using Inr er by (simp add: http_error_def)
    qed
  qed
qed

text \<open>
  Claim C3. When the first \<open>n \<ge> 1\<close> responses have status 429 and the next one, still
  within the retry budget (\<open>n < maxRetries\<close>; the default budget is 5), is a 2xx response
  with a JSON body, the wrapper returns the parsed body of that response and does not
  fail. It makes exactly the attempts 0 to \<open>n\<close>, with the scheduled waits between them.
\<close>

theorem fetchWithBackoff_429_then_ok:
  assumes "1 \<le> n" and "n < maxRetries"
    and "\<forall>i<n. \<exists>r. fetch i = Resolved r \<and> status r = 429"
    and "fetch n = Resolved r" and "ok r" and "body r = Inr j"
  shows "fetchWithBackoff fetch maxRetries = (schedule n @ [Fetch n], Inr j)"
proof -
  have "\<forall>i<n. failed (fetch i)"
    using assms(3) by (auto simp: failed_def ok_def)
  then have "attempts fetch maxRetries 0 1000 =
           (schedule n @ fst (attempts fetch maxRetries n (1000 * 2 ^ n)),
            snd (attempts fetch maxRetries n (1000 * 2 ^ n)))"
    unfolding schedule_def using assms(2) by (rule attempts_failed_run)
  moreover have "attempts fetch maxRetries n (1000 * 2 ^ n) = ([Fetch n], Inr j)"
    using assms by (subst attempts.simps) simp
  ultimately show ?thesis
    by (simp add: fetchWithBackoff_def)
qed

theorem fetchWithBackoff_429_then_ok_witness:
  "fetchWithBackoff rate_limited_twice defaultMaxRetries =
     ([Fetch 0, Sleep 1000, Fetch 1, Sleep 2000, Fetch 2], Inr (JStr ''done''))"
proof -
  have "schedule 2 = [Fetch 0, Sleep 1000, Fetch 1, Sleep 2000]"
    by (simp add: schedule_def numeral_2_eq_2)
  then show ?thesis
    using fetchWithBackoff_429_then_ok [of 2 defaultMaxRetries rate_limited_twice
      "\<lparr>status = 200, body = Inr (JStr ''done'')\<rparr>" "JStr ''done''"]
    by (simp add: rate_limited_twice_def defaultMaxRetries_def ok_def)
qed

text \<open>
  Claim C4. The events of an invocation are an initial segment of the schedule
  attempt 0, wait 1000, attempt 1, wait 2000, ...; so whenever retry attempt \<open>k \<ge> 1\<close>
  takes place, what precedes it is attempt \<open>k - 1\<close> and then one wait of
  \<open>1000 * 2 ^ (k - 1)\<close> milliseconds. The schedule depends on nothing but the retry
  budget: every invocation starts at 1000 and the delay is never capped.
\<close>

theorem fetchWithBackoff_delay_before_retry:
  "prefix (fst (fetchWithBackoff fetch maxRetries)) (schedule maxRetries) \<and>
   (\<forall>k\<ge>1. Fetch k \<in> set (fst (fetchWithBackoff fetch maxRetries)) \<longrightarrow>
      (\<exists>pre post. fst (fetchWithBackoff fetch maxRetries) =
          pre @ [Fetch (k - 1), Sleep (1000 * 2 ^ (k - 1)), Fetch k] @ post))"
  using trace_prefix_schedule [of fetch maxRetries] prefix_schedule_retry
  by blast

theorem fetchWithBackoff_delay_before_retry_witness:
  "Fetch 1 \<in> set (fst (fetchWithBackoff rate_limited_once defaultMaxRetries)) \<and>
   (\<exists>pre post. fst (fetchWithBackoff rate_limited_once defaultMaxRetries) =
      pre @ [Fetch 0, Sleep 1000, Fetch 1] @ post)"
proof -
  have tr: "fst (fetchWithBackoff rate_limited_once defaultMaxRetries) = [Fetch 0, Sleep 1000, Fetch 1]"
    by (simp add: fetchWithBackoff_def attempts.simps rate_limited_once_def defaultMaxRetries_def ok_def)
  then have mem: "Fetch 1 \<in> set (fst (fetchWithBackoff rate_limited_once defaultMaxRetries))"
    by simp
  from fetchWithBackoff_delay_before_retry [of rate_limited_once defaultMaxRetries] mem
  have "\<exists>pre post. fst (fetchWithBackoff rate_limited_once defaultMaxRetries) =
      pre @ [Fetch (1 - 1), Sleep (1000 * 2 ^ (1 - 1)), Fetch 1] @ post"
    by blast
  then show ?thesis
    using mem by simp
qed

text \<open>
  Claim C1, as the code has it. An attempt whose response is neither ok nor 429 throws
  the error built from the error body (its \<^verbatim>\<open>error.message\<close> when that is a non-empty
  string). The throw is inside the \<^verbatim>\<open>try\<close> of the loop body, so the \<^verbatim>\<open>catch\<close> of the same
  iteration receives it: on the last attempt of the budget the error is the outcome of
  the invocation and no further attempt is made; on any earlier attempt the wrapper
  waits the current delay and makes the next attempt.
\<close>

theorem fetchWithBackoff_http_error:
  assumes "Fetch i \<in> set (fst (fetchWithBackoff fetch maxRetries))"
    and "fetch i = Resolved r" and "\<not> ok r" and "status r \<noteq> 429"
  shows "(i = maxRetries - 1 \<longrightarrow>
            fetchWithBackoff fetch maxRetries = (schedule i @ [Fetch i], Inl (http_error r))) \<and>
         (i \<noteq> maxRetries - 1 \<longrightarrow>
            (\<exists>post. fst (fetchWithBackoff fetch maxRetries) =
               schedule i @ [Fetch i, Sleep (1000 * 2 ^ i), Fetch (Suc i)] @ post)) \<and>
         (\<forall>errData msg. body r = Inr errData \<and> message_member errData = JStr msg \<and> msg \<noteq> [] \<longrightarrow>
            http_error r = Error msg)"
proof -
  have im: "i < maxRetries" and before: "\<forall>j<i. failed (fetch j)"
    using attempt_reached [OF assms(1)] by auto
  have run: "attempts fetch maxRetries 0 1000 =
           (schedule i @ fst (attempts fetch maxRetries i (1000 * 2 ^ i)),
            snd (attempts fetch maxRetries i (1000 * 2 ^ i)))"
    unfolding schedule_def using before im by (rule attempts_failed_run)
  have last: "fetchWithBackoff fetch maxRetries = (schedule i @ [Fetch i], Inl (http_error r))"
    if "i = maxRetries - 1"
  proof -
    have "attempts fetch maxRetries i (1000 * 2 ^ i) = ([Fetch i], Inl (http_error r))"
      using assms(2-4) im that by (subst attempts.simps) simp
    then show ?thesis
      using run by (simp add: fetchWithBackoff_def)
  qed
  have more: "\<exists>post. fst (fetchWithBackoff fetch maxRetries) =
               schedule i @ [Fetch i, Sleep (1000 * 2 ^ i), Fetch (Suc i)] @ post"
    if "i \<noteq> maxRetries - 1"
  proof -
    have si: "Suc i < maxRetries" using im that by simp
    have fi: "failed (fetch i)" using assms(2,3) by (simp add: failed_def)
    have "fst (attempts fetch maxRetries i (1000 * 2 ^ i)) =
            Fetch i # Sleep (1000 * 2 ^ i) # fst (attempts fetch maxRetries (Suc i) (1000 * 2 ^ i * 2))"
      using fi si by (simp add: attempts_failed_step [of fetch i maxRetries])
    moreover have "\<exists>post. fst (attempts fetch maxRetries (Suc i) d) = Fetch (Suc i) # post" for d
      using si by (subst attempts.simps) (auto simp: Let_def split: outcome.splits)
    ultimately show ?thesis
      using run by (auto simp: fetchWithBackoff_def)
  qed
  show ?thesis
    using last more http_error_message by blast
qed

theorem fetchWithBackoff_http_error_witness:
  "Fetch 4 \<in> set (fst (fetchWithBackoff always_server_error defaultMaxRetries)) \<and>
   fetchWithBackoff always_server_error defaultMaxRetries =
     ([Fetch 0, Sleep 1000, Fetch 1, Sleep 2000, Fetch 2, Sleep 4000, Fetch 3, Sleep 8000, Fetch 4],
      Inl (Error ''boom''))"
proof -
  let ?r = "\<lparr>status = 500, body = Inr (JObj [(''error'', JObj [(''message'', JStr ''boom'')])])\<rparr>"
  have reached: "Fetch 4 \<in> set (fst (fetchWithBackoff always_server_error defaultMaxRetries))"
    by (simp add: fetchWithBackoff_def attempts.simps always_server_error_def defaultMaxRetries_def ok_def)
  note at_last = fetchWithBackoff_http_error [OF reached, of ?r]
  have "fetchWithBackoff always_server_error defaultMaxRetries = (schedule 4 @ [Fetch 4], Inl (http_error ?r))"
    using at_last by (simp add: always_server_error_def defaultMaxRetries_def ok_def)
  moreover have "http_error ?r = Error ''boom''"
    using at_last by (simp add: always_server_error_def ok_def message_member_def get_prop_def opt_prop_def)
  moreover have "schedule 4 = [Fetch 0, Sleep 1000, Fetch 1, Sleep 2000, Fetch 2, Sleep 4000, Fetch 3, Sleep 8000]"
    by (simp add: schedule_def upt_rec)
  ultimately show ?thesis
    using reached by simp
qed

text \<open>
  Claim C1 as stated fails: a 500 response at the first attempt is followed by a second
  attempt, and the invocation returns the body of the 200 response it meets there.
\<close>

theorem fetchWithBackoff_http_error_retried:
  "server_error_then_ok 0 =
     Resolved \<lparr>status = 500, body = Inr (JObj [(''error'', JObj [(''message'', JStr ''boom'')])])\<rparr> \<and>
   \<not> ok \<lparr>status = 500, body = Inr (JObj [(''error'', JObj [(''message'', JStr ''boom'')])])\<rparr> \<and>
   fetchWithBackoff server_error_then_ok defaultMaxRetries =
     ([Fetch 0, Sleep 1000, Fetch 1], Inr (JStr ''done''))"
  by (simp add: fetchWithBackoff_def attempts.simps server_error_then_ok_def defaultMaxRetries_def ok_def)

text \<open>
  Claim C5, as the code has it. When every attempt of the budget fails, the invocation
  fails: with the error thrown at the last attempt, or with the generic error when the
  last attempt was answered 429 (or the budget is zero) and the loop ran to its end.
  The message is not empty when the error thrown at the last attempt is well reported.
\<close>

theorem fetchWithBackoff_budget_exhausted:
  assumes "\<forall>i<maxRetries. failed (fetch i)"
  shows "snd (fetchWithBackoff fetch maxRetries) =
           Inl (if maxRetries = 0 then generic_error
                else case thrown (fetch (maxRetries - 1)) of Some e \<Rightarrow> e | None \<Rightarrow> generic_error) \<and>
         ((maxRetries = 0 \<or> thrown (fetch (maxRetries - 1)) = None \<or>
           well_reported (fetch (maxRetries - 1))) \<longrightarrow>
            (\<exists>e. snd (fetchWithBackoff fetch maxRetries) = Inl e \<and> message e \<noteq> []))"
proof -
  note res = fetchWithBackoff_exhausted [OF assms]
  have "message (case thrown (fetch (maxRetries - 1)) of Some e \<Rightarrow> e | None \<Rightarrow> generic_error) \<noteq> []"
    if "well_reported (fetch (maxRetries - 1))"
  proof (cases "fetch (maxRetries - 1)")
    case (Rejected e)
    then show ?thesis using that by (simp add: thrown_def well_reported_def)
  next
    case (Resolved r)
    then show ?thesis
      using that http_error_nonempty [of r] by (simp add: thrown_def generic_error_def)
  qed
  moreover have "message generic_error \<noteq> []"
    by (simp add: generic_error_def)
  ultimately show ?thesis
    using res by auto
qed

theorem fetchWithBackoff_budget_exhausted_witness:
  "snd (fetchWithBackoff always_rate_limited defaultMaxRetries) =
     Inl (Error ''Request failed after multiple retries.'') \<and>
   (\<exists>e. snd (fetchWithBackoff always_rate_limited defaultMaxRetries) = Inl e \<and> message e \<noteq> [])"
proof -
  have all_failed: "\<forall>i<defaultMaxRetries. failed (always_rate_limited i)"
    by (simp add: always_rate_limited_def failed_def ok_def)
  have none_thrown: "thrown (always_rate_limited (defaultMaxRetries - 1)) = None"
    by (simp add: always_rate_limited_def thrown_def)
  have reported: "well_reported (always_rate_limited (defaultMaxRetries - 1))"
    by (simp add: always_rate_limited_def well_reported_def message_member_def get_prop_def)
  from fetchWithBackoff_budget_exhausted [OF all_failed] none_thrown reported
  show ?thesis
    by (simp add: defaultMaxRetries_def generic_error_def)
qed

text \<open>
  Claim C5 as stated fails: when every response is a 500 response whose error body has
  the empty array as its \<^verbatim>\<open>message\<close>, the array is truthy, \<^verbatim>\<open>new Error([])\<close> has the empty
  message, and that error is the outcome.
\<close>

theorem fetchWithBackoff_empty_message:
  "failed (always_empty_message 0) \<and> failed (always_empty_message 1) \<and>
   failed (always_empty_message 2) \<and> failed (always_empty_message 3) \<and>
   failed (always_empty_message 4) \<and>
   snd (fetchWithBackoff always_empty_message defaultMaxRetries) = Inl (Error [])"
  by (simp add: fetchWithBackoff_def attempts.simps always_empty_message_def defaultMaxRetries_def ok_def
       failed_def http_error_def get_prop_def opt_prop_def)

section \<open>Properties of the two actions\<close>

lemma generateIdeas_loading:
  "isLoadingIdeas (snd (generateIdeas w s)) = (brief s = [] \<and> isLoadingIdeas s)"
  by (simp add: generateIdeas_def Let_def split: sum.splits)

lemma visualizeConcept_loading:
  "loadingImageId (snd (visualizeConcept w conceptId conceptText s)) = None"
  by (simp add: visualizeConcept_def Let_def split: sum.splits)

lemma visualizeConcept_isLoadingIdeas:
  "isLoadingIdeas (snd (visualizeConcept w conceptId conceptText s)) = isLoadingIdeas s"
  by (simp add: visualizeConcept_def Let_def split: sum.splits)

lemma generateIdeas_loadingImageId:
  "loadingImageId (snd (generateIdeas w s)) = loadingImageId s"
  by (simp add: generateIdeas_def Let_def split: sum.splits)

lemma reachable_idle: "reachable s \<Longrightarrow> \<not> isLoadingIdeas s \<and> loadingImageId s = None"
proof (induction rule: reachable.induct)
  case start
  show ?case by (simp add: initial_def)
next
  case (event s w e)
  then show ?case
    by (cases e)
       (simp_all add: generateIdeas_loading visualizeConcept_loading
          visualizeConcept_isLoadingIdeas generateIdeas_loadingImageId)
qed



text \<open>
  Claim C6. With an empty brief, \<^verbatim>\<open>generateIdeas\<close> calls \<^verbatim>\<open>fetch\<close> not once (its trace of
  events is empty), sets the validation error and changes nothing else: the concept list
  and the loading flag are as before.
\<close>

theorem generateIdeas_empty_brief:
  assumes "brief s = []"
  shows "generateIdeas w s = ([], s\<lparr>error := Some ''Please enter a creative brief.''\<rparr>) \<and>
         concepts (snd (generateIdeas w s)) = concepts s \<and>
         isLoadingIdeas (snd (generateIdeas w s)) = isLoadingIdeas s"
  using assms by (simp add: generateIdeas_def)

theorem generateIdeas_empty_brief_witness:
  "brief no_brief = [] \<and>
   fst (generateIdeas rate_limited_world no_brief) = [] \<and>
   error (snd (generateIdeas rate_limited_world no_brief)) = Some ''Please enter a creative brief.'' \<and>
   concepts (snd (generateIdeas rate_limited_world no_brief)) = [alpha, beta] \<and>
   isLoadingIdeas (snd (generateIdeas rate_limited_world no_brief)) = False"
proof -
  have b: "brief no_brief = []"
    by (simp add: no_brief_def)
  from generateIdeas_empty_brief [OF b, of rate_limited_world]
  show ?thesis
    using b by (simp add: no_brief_def two_concepts_def)
qed



text \<open>
  Claim C8, as the code has it. A \<^verbatim>\<open>visualizeConcept\<close> that ends with an error leaves the
  concept list as it was, and so does the validation error of \<^verbatim>\<open>generateIdeas\<close>. A
  \<^verbatim>\<open>generateIdeas\<close> with a brief clears the list before it sends the request
  (\<^verbatim>\<open>setConcepts([])\<close>), so when it ends with an error the list is empty.
\<close>

theorem concepts_after_error:
  "(error (snd (visualizeConcept w conceptId conceptText s)) \<noteq> None \<longrightarrow>
      concepts (snd (visualizeConcept w conceptId conceptText s)) = concepts s) \<and>
   (brief s = [] \<longrightarrow> concepts (snd (generateIdeas w s)) = concepts s) \<and>
   (brief s \<noteq> [] \<and> error (snd (generateIdeas w s)) \<noteq> None \<longrightarrow>
      concepts (snd (generateIdeas w s)) = [])"
  by (auto simp: visualizeConcept_def generateIdeas_def Let_def split: sum.splits)


theorem concepts_after_error_witness:
  "error (snd (visualizeConcept rate_limited_world 1 (units ''Alpha'') two_concepts)) =
     Some ''Failed to generate image. Request failed after multiple retries.'' \<and>
   concepts (snd (visualizeConcept rate_limited_world 1 (units ''Alpha'') two_concepts)) = [alpha, beta]"
proof -
  have call: "snd (fetchWithBackoff always_rate_limited defaultMaxRetries) =
                Inl (Error ''Request failed after multiple retries.'')"
    by (simp add: fetchWithBackoff_def attempts.simps always_rate_limited_def defaultMaxRetries_def ok_def)
  have err: "error (snd (visualizeConcept rate_limited_world 1 (units ''Alpha'') two_concepts)) =
     Some ''Failed to generate image. Request failed after multiple retries.''"
    by (simp add: visualizeConcept_def rate_limited_world_def call image_try_def)
  from concepts_after_error [of rate_limited_world 1 "units ''Alpha''" two_concepts] err
  show ?thesis
    by (simp add: two_concepts_def)
qed

text \<open>
  Claim C8 as stated fails for idea generation: with two concepts on the page and every
  request answered 429, \<^verbatim>\<open>generateIdeas\<close> ends with an error and the list is empty.
\<close>

theorem generateIdeas_error_clears_concepts:
  "concepts two_concepts = [alpha, beta] \<and>
   error (snd (generateIdeas rate_limited_world two_concepts)) =
     Some ''Failed to generate ideas. Request failed after multiple retries.'' \<and>
   concepts (snd (generateIdeas rate_limited_world two_concepts)) = []"
proof -
  have call: "snd (fetchWithBackoff always_rate_limited defaultMaxRetries) =
                Inl (Error ''Request failed after multiple retries.'')"
    by (simp add: fetchWithBackoff_def attempts.simps always_rate_limited_def defaultMaxRetries_def ok_def)
  show ?thesis
    by (simp add: generateIdeas_def rate_limited_world_def call ideas_try_def two_concepts_def)
qed

text \<open>
  Claim C10. \<^verbatim>\<open>generateIdeas\<close> ends with \<^verbatim>\<open>isLoadingIdeas\<close> false, whether it stored
  concepts or reported an error; its refusal of an empty brief leaves the flag as it
  found it, which is false, since the button that starts the action is disabled while
  the flag is set. \<^verbatim>\<open>visualizeConcept\<close> always ends with \<^verbatim>\<open>loadingImageId\<close> \<^verbatim>\<open>null\<close>. So in
  every state the page reaches from its initial state no loading indicator is set.
\<close>

theorem loading_indicators_cleared:
  "(\<not> isLoadingIdeas s \<or> brief s \<noteq> [] \<longrightarrow> \<not> isLoadingIdeas (snd (generateIdeas w s))) \<and>
   loadingImageId (snd (visualizeConcept w conceptId conceptText s)) = None \<and>
   (reachable s \<longrightarrow> \<not> isLoadingIdeas s \<and> loadingImageId s = None)"
  using reachable_idle [of s]
  by (auto simp: generateIdeas_loading visualizeConcept_loading)

theorem loading_indicators_cleared_witness:
  "reachable initial \<and>
   \<not> isLoadingIdeas initial \<and>
   \<not> isLoadingIdeas (snd (generateIdeas rate_limited_world initial)) \<and>
   loadingImageId (snd (visualizeConcept rate_limited_world 1 (units ''Alpha'') initial)) = None"
  using loading_indicators_cleared [of initial rate_limited_world 1 "units ''Alpha''"] reachable.start
  by simp


section \<open>Properties of the concept-list parser\<close>

lemma not_digit_period: "\<not> is_digit 0x2E"
  by (simp add: is_digit_def)



lemma is_marker_iff:
  "is_marker m \<longleftrightarrow>
     (\<exists>ds ws. m = ds @ [0x2E] @ ws \<and> ds \<noteq> [] \<and> ws \<noteq> [] \<and> list_all is_digit ds \<and> list_all is_space ws)"
proof
  assume "is_marker m"
  then obtain ws where ds: "takeWhile is_digit m \<noteq> []" and dw: "dropWhile is_digit m = 0x2E # ws"
    and ws: "ws \<noteq> []" "list_all is_space ws"
    by (auto simp: is_marker_def split: list.splits)
  have "m = takeWhile is_digit m @ [0x2E] @ ws"
    using dw takeWhile_dropWhile_id [of is_digit m] by simp
  moreover have "list_all is_digit (takeWhile is_digit m)"
    by (auto simp: list_all_iff dest: set_takeWhileD)
  ultimately show "\<exists>ds ws. m = ds @ [0x2E] @ ws \<and> ds \<noteq> [] \<and> ws \<noteq> [] \<and> list_all is_digit ds \<and> list_all is_space ws"
    using ds ws by blast
next
  assume "\<exists>ds ws. m = ds @ [0x2E] @ ws \<and> ds \<noteq> [] \<and> ws \<noteq> [] \<and> list_all is_digit ds \<and> list_all is_space ws"
  then obtain ds ws where m: "m = ds @ 0x2E # ws" and ds: "ds \<noteq> []" "list_all is_digit ds"
    and ws: "ws \<noteq> []" "list_all is_space ws"
    by auto
  have "takeWhile is_digit m = ds"
    using ds(2) by (simp add: m takeWhile_append2 list_all_iff not_digit_period)
  moreover have "dropWhile is_digit m = 0x2E # ws"
    using ds(2) by (simp add: m dropWhile_append2 list_all_iff not_digit_period)
  ultimately show "is_marker m"
    using ds(1) ws by (simp add: is_marker_def)
qed







lemma parsedConcepts_texts:
  "map concept_text (parsedConcepts now txt) =
     map trim (filter (\<lambda>f. trim f \<noteq> []) (split_marker txt))"
proof -
  have "map (\<lambda>p. trim (snd p)) (enumerate 0 xs) = map trim xs" for xs :: "utf16 list"
    using map_map [of trim snd "enumerate 0 xs"] by (simp add: comp_def)
  then show ?thesis
    by (simp add: parsedConcepts_def comp_def case_prod_beta)
qed







lemma parsed_example_wide:
  "map concept_text (parsedConcepts now numbered_list_wide) = [units ''Alpha'', units ''Beta'']"
  by (simp add: parsedConcepts_texts split_marker_def numbered_list_wide_def units_def
      match_marker_def trim_def is_digit_def is_space_def)

lemma generateIdeas_parses:
  assumes "brief s \<noteq> []"
    and "snd (fetchWithBackoff (network w) defaultMaxRetries) = Inr text_response"
  shows "concepts (snd (generateIdeas w s)) = parsedConcepts (clock w) numbered_list"
  using assms
  by (simp add: generateIdeas_def Let_def ideas_try_def candidate_text_def text_response_def
      opt_prop_def opt_first_def numbered_list_def units_def)




section \<open>Properties of the image proxy\<close>

text \<open>
  Claim C9. When the parsed body handed to the handler has no \<^verbatim>\<open>prompt\<close> member (the
  JSON body parser passes on objects and arrays, never \<^verbatim>\<open>null\<close>), the handler answers
  400 with \<^verbatim>\<open>{ error: "Prompt is required." }\<close> and performs no effect: it neither asks
  for a credential nor calls the provider.
\<close>

theorem generate_image_missing_prompt:
  assumes "req_body \<noteq> JNull" and "req_body \<noteq> JUndefined"
    and "member req_body ''prompt'' = JUndefined"
  shows "generate_image p req_body =
           ([], \<lparr>code = 400, payload = JObj [(''error'', JStr ''Prompt is required.'')]\<rparr>)"
  using assms by (simp add: generate_image_def destructure_prompt_def)

theorem generate_image_missing_prompt_witness:
  "generate_image idle_provider (JObj []) =
     ([], \<lparr>code = 400, payload = JObj [(''error'', JStr ''Prompt is required.'')]\<rparr>)"
  using generate_image_missing_prompt [of "JObj []" idle_provider] by simp


end
